theory Spec2Isabelle
  imports Main
begin

section \<open>JavaScript values\<close>

text \<open>
  The bodies that the backend returns are parsed JSON; the code reads them with property
  accesses that yield undefined where a property is missing.  A value is therefore a
  JSON value or undefined.  Numbers are modelled by the integers (the code looks at a
  number only to ask whether it is falsy or positive, and to print it); an integer of a
  magnitude up to 2^53 is a number of JavaScript exactly.  An object is an association list read by
  \<open>map_of\<close>: the first binding of a key is the property's value; the order of the list
  carries no meaning beyond that.  A string is the list of the bytes of its text in UTF-8:
  a character of ASCII is one byte, which is its code, and a character beyond ASCII is two
  to four bytes, each above 0x7F.
\<close>

datatype jsval =
    Undefined
  | Null
  | Bool bool
  | Num int
  | Str string
  | Arr "jsval list"
  | Obj "(string \<times> jsval) list"

text \<open>JavaScript's ToBoolean: undefined, null, false, 0 and the empty string are falsy.\<close>

fun truthy :: "jsval \<Rightarrow> bool" where
  "truthy Undefined = False"
| "truthy Null = False"
| "truthy (Bool b) = b"
| "truthy (Num n) = (n \<noteq> 0)"
| "truthy (Str s) = (s \<noteq> [])"
| "truthy (Arr _) = True"
| "truthy (Obj _) = True"

text \<open>The operator \<^verbatim>\<open>a || b\<close> on values.\<close>

definition js_or :: "jsval \<Rightarrow> jsval \<Rightarrow> jsval" where
  "js_or a b = (if truthy a then a else b)"

text \<open>
  Property access \<^verbatim>\<open>v.k\<close> for a receiver that is neither null nor undefined, and
  optional access \<^verbatim>\<open>v?.k\<close> for any receiver.  It is read only at the property names
  that occur in the source; of these only length exists on strings and arrays.  The
  length of a string is counted in bytes, which is its length in JavaScript for a text
  of ASCII.  Where the source reads a property of a value that may be null, the model
  raises the TypeError itself (see parseMCPResponse of Analytics.jsx).
\<close>

fun field :: "jsval \<Rightarrow> string \<Rightarrow> jsval" where
  "field (Obj kvs) k = (case map_of kvs k of None \<Rightarrow> Undefined | Some v \<Rightarrow> v)"
| "field (Arr xs) k = (if k = ''length'' then Num (int (length xs)) else Undefined)"
| "field (Str s) k = (if k = ''length'' then Num (int (length s)) else Undefined)"
| "field _ k = Undefined"

fun isArray :: "jsval \<Rightarrow> bool" where
  "isArray (Arr _) = True"
| "isArray _ = False"

fun isString :: "jsval \<Rightarrow> bool" where
  "isString (Str _) = True"
| "isString _ = False"

section \<open>Response normalizer\<close>

subsection \<open>extractDags, Chatbot2.jsx lines 103-120\<close>

text \<open>The function returns an array on every path; the model returns its elements.\<close>

fun elems :: "jsval \<Rightarrow> jsval list" where
  "elems (Arr xs) = xs"
| "elems _ = []"

definition extractDags :: "jsval \<Rightarrow> jsval list" where
  "extractDags mcpBody =
    (if \<not> truthy mcpBody then []
     else if truthy (field mcpBody ''output'') \<and> isArray (field (field mcpBody ''output'') ''dags'')
       then elems (field (field mcpBody ''output'') ''dags'')
     else if isArray (field mcpBody ''dags'') then elems (field mcpBody ''dags'')
     else if truthy (field mcpBody ''data'') \<and> isArray (field (field mcpBody ''data'') ''dags'')
       then elems (field (field mcpBody ''data'') ''dags'')
     else if truthy (field mcpBody ''data'') \<and> isArray (field mcpBody ''data'')
       then elems (field mcpBody ''data'')
     else if isArray (field mcpBody ''results'') then elems (field mcpBody ''results'')
     else if isArray mcpBody then elems mcpBody
     else [])"

subsection \<open>extractDags, Analytics.jsx lines 442-449 (the same text is Chatbot2.jsx lines 542-549)\<close>

text \<open>
  The first test is on the truthiness of \<^verbatim>\<open>mcpBody.output?.dags\<close>, which is returned
  as it is, so the result is a value, not always an array.
\<close>

definition extractDags_analytics :: "jsval \<Rightarrow> jsval" where
  "extractDags_analytics mcpBody =
    (if \<not> truthy mcpBody then Arr []
     else if truthy (field (field mcpBody ''output'') ''dags'')
       then field (field mcpBody ''output'') ''dags''
     else if isArray (field mcpBody ''dags'') then field mcpBody ''dags''
     else if isArray (field mcpBody ''results'') then field mcpBody ''results''
     else if isArray mcpBody then mcpBody
     else Arr [])"

text \<open>
  The six places of the specification, in its order, as a list of candidates, and the
  two readings of "first match": the first candidate that is an array, and the first
  candidate that is a non-empty array.
\<close>

definition candidates :: "jsval \<Rightarrow> jsval list" where
  "candidates p =
    [field (field p ''output'') ''dags'', field p ''dags'', field (field p ''data'') ''dags'',
     field p ''data'', field p ''results'', p]"

fun first_array :: "jsval list \<Rightarrow> jsval list" where
  "first_array [] = []"
| "first_array (c # cs) = (if isArray c then elems c else first_array cs)"

fun first_nonempty_array :: "jsval list \<Rightarrow> jsval list" where
  "first_nonempty_array [] = []"
| "first_nonempty_array (c # cs) =
     (if isArray c \<and> elems c \<noteq> [] then elems c else first_nonempty_array cs)"


subsection \<open>Every property read, with its TypeError\<close>

text \<open>
  Reading a property of null or undefined throws a TypeError.  The strict versions
  below make every read of the two functions one that can throw, in the order the source
  evaluates them; a result \<open>Inl e\<close> is the exception \<open>e\<close> leaving the function.
\<close>

datatype js_error = TypeError | SyntaxError | NetworkError

fun nullish :: "jsval \<Rightarrow> bool" where
  "nullish Undefined = True"
| "nullish Null = True"
| "nullish _ = False"

definition access :: "jsval \<Rightarrow> string \<Rightarrow> js_error + jsval" where
  "access v k = (if nullish v then Inl TypeError else Inr (field v k))"

text \<open>Optional chaining \<^verbatim>\<open>v?.k\<close>: undefined for a nullish receiver, never an exception.\<close>

definition access_opt :: "jsval \<Rightarrow> string \<Rightarrow> js_error + jsval" where
  "access_opt v k = (if nullish v then Inr Undefined else access v k)"

definition and_then :: "js_error + 'a \<Rightarrow> ('a \<Rightarrow> js_error + 'b) \<Rightarrow> js_error + 'b" where
  "and_then r f = (case r of Inl e \<Rightarrow> Inl e | Inr x \<Rightarrow> f x)"

definition extractDags_strict :: "jsval \<Rightarrow> js_error + jsval list" where
  "extractDags_strict mcpBody =
    (if \<not> truthy mcpBody then Inr []
     else and_then (access mcpBody ''output'') (\<lambda>output.
          and_then (if truthy output then access output ''dags'' else Inr Undefined) (\<lambda>odags.
          if truthy output \<and> isArray odags then Inr (elems odags)
          else and_then (access mcpBody ''dags'') (\<lambda>dags.
          if isArray dags then Inr (elems dags)
          else and_then (access mcpBody ''data'') (\<lambda>data.
          and_then (if truthy data then access data ''dags'' else Inr Undefined) (\<lambda>ddags.
          if truthy data \<and> isArray ddags then Inr (elems ddags)
          else if truthy data \<and> isArray data then Inr (elems data)
          else and_then (access mcpBody ''results'') (\<lambda>results.
          if isArray results then Inr (elems results)
          else if isArray mcpBody then Inr (elems mcpBody)
          else Inr [])))))))"

definition extractDags_analytics_strict :: "jsval \<Rightarrow> js_error + jsval" where
  "extractDags_analytics_strict mcpBody =
    (if \<not> truthy mcpBody then Inr (Arr [])
     else and_then (access mcpBody ''output'') (\<lambda>output.
          and_then (access_opt output ''dags'') (\<lambda>odags.
          if truthy odags then Inr odags
          else and_then (access mcpBody ''dags'') (\<lambda>dags.
          if isArray dags then Inr dags
          else and_then (access mcpBody ''results'') (\<lambda>results.
          if isArray results then Inr results
          else if isArray mcpBody then Inr mcpBody
          else Inr (Arr []))))))"

subsection \<open>JSON.stringify, one argument\<close>

text \<open>
  The compact form that \<^verbatim>\<open>JSON.stringify(d)\<close> yields: \<open>None\<close> is the result undefined
  (for the value undefined alone); inside an array undefined prints as null, inside an
  object its property is left out.
\<close>

definition hex_digit :: "nat \<Rightarrow> char" where
  "hex_digit n = ''0123456789abcdef'' ! n"

definition digit :: "nat \<Rightarrow> char" where
  "digit n = ''0123456789'' ! n"

text \<open>
  The decimal form of an integer.  JavaScript prints an integer in this form up to the
  magnitude 10^21, from which on it prints a form with an exponent.
\<close>

fun show_nat :: "nat \<Rightarrow> string" where
  "show_nat n = (if n < 10 then [digit n] else show_nat (n div 10) @ [digit (n mod 10)])"

definition show_int :: "int \<Rightarrow> string" where
  "show_int i = (if i < 0 then CHR ''-'' # show_nat (nat (- i)) else show_nat (nat i))"

definition escape_char :: "char \<Rightarrow> string" where
  "escape_char c =
    (if c = CHR ''\"'' then [CHR 0x5C, CHR ''\"'']
     else if c = CHR 0x5C then [CHR 0x5C, CHR 0x5C]
     else if c = CHR 0x08 then [CHR 0x5C, CHR ''b'']
     else if c = CHR 0x0C then [CHR 0x5C, CHR ''f'']
     else if c = CHR 0x0A then [CHR 0x5C, CHR ''n'']
     else if c = CHR 0x0D then [CHR 0x5C, CHR ''r'']
     else if c = CHR 0x09 then [CHR 0x5C, CHR ''t'']
     else if (of_char c :: nat) < 32
       then [CHR 0x5C, CHR ''u'', CHR ''0'', CHR ''0'',
             hex_digit (of_char c div 16), hex_digit (of_char c mod 16)]
     else [c])"

definition quote :: "string \<Rightarrow> string" where
  "quote s = CHR ''\"'' # concat (map escape_char s) @ [CHR ''\"'']"

fun join :: "string \<Rightarrow> string list \<Rightarrow> string" where
  "join sep [] = []"
| "join sep [x] = x"
| "join sep (x # y # ys) = x @ sep @ join sep (y # ys)"

fun JSON_stringify :: "jsval \<Rightarrow> string option" where
  "JSON_stringify Undefined = None"
| "JSON_stringify Null = Some ''null''"
| "JSON_stringify (Bool b) = Some (if b then ''true'' else ''false'')"
| "JSON_stringify (Num n) = Some (show_int n)"
| "JSON_stringify (Str s) = Some (quote s)"
| "JSON_stringify (Arr xs) =
     Some (''['' @ join '','' (map (\<lambda>x. case JSON_stringify x of None \<Rightarrow> ''null'' | Some t \<Rightarrow> t) xs) @ '']'')"
| "JSON_stringify (Obj kvs) =
     Some (''{'' @ join '',''
        (concat (map (\<lambda>(k, v). case JSON_stringify v of None \<Rightarrow> [] | Some t \<Rightarrow> [quote k @ '':'' @ t]) kvs))
        @ ''}'')"

subsection \<open>normalizeDagList, Chatbot2.jsx lines 123-129\<close>

definition stringified :: "jsval \<Rightarrow> jsval" where
  "stringified d = (case JSON_stringify d of None \<Rightarrow> Undefined | Some s \<Rightarrow> Str s)"

definition normalize_entry :: "jsval \<Rightarrow> jsval" where
  "normalize_entry d =
    (if \<not> truthy d then Str []
     else if isString d then d
     else js_or (field d ''dag_id'') (js_or (field d ''dagId'') (js_or (field d ''id'') (stringified d))))"

definition normalizeDagList :: "jsval list \<Rightarrow> jsval list" where
  "normalizeDagList rawDags = filter truthy (map normalize_entry rawDags)"


section \<open>Strings and regular expressions\<close>

subsection \<open>White space and trim\<close>

text \<open>
  The white space of JavaScript is the 25 characters that \<^verbatim>\<open>trim()\<close> strips and
  \<^verbatim>\<open>\s\<close> matches: those of the grammar's WhiteSpace (U+0009, U+000B, U+000C, U+FEFF
  and the space separators U+0020, U+00A0, U+1680, U+2000 to U+200A, U+202F, U+205F,
  U+3000) and its LineTerminator (U+000A, U+000D, U+2028, U+2029).  Six of them are
  ASCII and one byte long; U+00A0 is the two bytes C2 A0; the other 18 are three bytes
  long.
\<close>

definition is_space :: "char \<Rightarrow> bool" where
  "is_space c = (c \<in> set [CHR 0x09, CHR 0x0A, CHR 0x0B, CHR 0x0C, CHR 0x0D, CHR 0x20])"

definition space2 :: "char \<Rightarrow> char \<Rightarrow> bool" where
  "space2 a b = (a = CHR 0xC2 \<and> b = CHR 0xA0)"

definition space3 :: "char \<Rightarrow> char \<Rightarrow> char \<Rightarrow> bool" where
  "space3 a b c =
    ((a = CHR 0xE1 \<and> b = CHR 0x9A \<and> c = CHR 0x80)
     \<or> (a = CHR 0xE2 \<and> b = CHR 0x80 \<and>
         c \<in> set [CHR 0x80, CHR 0x81, CHR 0x82, CHR 0x83, CHR 0x84, CHR 0x85, CHR 0x86, CHR 0x87,
                  CHR 0x88, CHR 0x89, CHR 0x8A, CHR 0xA8, CHR 0xA9, CHR 0xAF])
     \<or> (a = CHR 0xE2 \<and> b = CHR 0x81 \<and> c = CHR 0x9F)
     \<or> (a = CHR 0xE3 \<and> b = CHR 0x80 \<and> c = CHR 0x80)
     \<or> (a = CHR 0xEF \<and> b = CHR 0xBB \<and> c = CHR 0xBF))"

text \<open>The 25 characters, each as its bytes.\<close>

definition white_space :: "string list" where
  "white_space =
    [[CHR 0x09], [CHR 0x0A], [CHR 0x0B], [CHR 0x0C], [CHR 0x0D], [CHR 0x20],
     [CHR 0xC2, CHR 0xA0],
     [CHR 0xE1, CHR 0x9A, CHR 0x80],
     [CHR 0xE2, CHR 0x80, CHR 0x80], [CHR 0xE2, CHR 0x80, CHR 0x81], [CHR 0xE2, CHR 0x80, CHR 0x82],
     [CHR 0xE2, CHR 0x80, CHR 0x83], [CHR 0xE2, CHR 0x80, CHR 0x84], [CHR 0xE2, CHR 0x80, CHR 0x85],
     [CHR 0xE2, CHR 0x80, CHR 0x86], [CHR 0xE2, CHR 0x80, CHR 0x87], [CHR 0xE2, CHR 0x80, CHR 0x88],
     [CHR 0xE2, CHR 0x80, CHR 0x89], [CHR 0xE2, CHR 0x80, CHR 0x8A],
     [CHR 0xE2, CHR 0x80, CHR 0xA8], [CHR 0xE2, CHR 0x80, CHR 0xA9], [CHR 0xE2, CHR 0x80, CHR 0xAF],
     [CHR 0xE2, CHR 0x81, CHR 0x9F],
     [CHR 0xE3, CHR 0x80, CHR 0x80],
     [CHR 0xEF, CHR 0xBB, CHR 0xBF]]"

text \<open>
  The white space character that a text starts with is found by the length of its form:
  \<open>is_space\<close> holds of the six bytes that are a white space character, \<open>space2\<close>
  of the two bytes of U+00A0 and \<open>space3\<close> of the three bytes of one of the other 18
  (in the order of the table).  A text is blank when it is white space characters from
  its start to its end.
\<close>

fun blank :: "string \<Rightarrow> bool" where
  "blank (a # b # c # s) =
     (if is_space a then blank (b # c # s)
      else if space2 a b then blank (c # s)
      else if space3 a b c then blank s
      else False)"
| "blank [a, b] = (if is_space a then blank [b] else space2 a b)"
| "blank [a] = is_space a"
| "blank [] = True"

text \<open>
  \<^verbatim>\<open>s.trim()\<close> is \<open>s\<close> without the white space characters at its start and without
  those at its end: the text from the first character that is not white space, up to
  the place from which the rest is blank.
\<close>

fun trimStart :: "string \<Rightarrow> string" where
  "trimStart (a # b # c # s) =
     (if is_space a then trimStart (b # c # s)
      else if space2 a b then trimStart (c # s)
      else if space3 a b c then trimStart s
      else a # b # c # s)"
| "trimStart [a, b] = (if is_space a then trimStart [b] else if space2 a b then [] else [a, b])"
| "trimStart [a] = (if is_space a then [] else [a])"
| "trimStart [] = []"

fun trimEnd :: "string \<Rightarrow> string" where
  "trimEnd [] = []"
| "trimEnd (c # s) = (if blank (c # s) then [] else c # trimEnd s)"

definition trim :: "string \<Rightarrow> string" where
  "trim s = trimEnd (trimStart s)"

subsection \<open>Letters, classes and patterns\<close>

text \<open>
  The patterns of the source are written in ASCII and are matched byte by byte.  A
  word character and a character of the identifier class are ASCII in JavaScript too,
  also under the flag \<^verbatim>\<open>i\<close>.  The class \<^verbatim>\<open>\s\<close> and the line terminators that the
  dot excludes are taken among the characters of one byte, and lower-casing changes the
  letters of ASCII; on a text of ASCII the patterns are JavaScript's.
\<close>

definition to_lower :: "char \<Rightarrow> char" where
  "to_lower c =
    (case map_of (zip ''ABCDEFGHIJKLMNOPQRSTUVWXYZ'' ''abcdefghijklmnopqrstuvwxyz'') c of
       None \<Rightarrow> c | Some l \<Rightarrow> l)"

definition toLowerCase :: "string \<Rightarrow> string" where
  "toLowerCase s = map to_lower s"

definition is_word :: "char \<Rightarrow> bool" where
  "is_word c = (c \<in> set ''abcdefghijklmnopqrstuvwxyzABCDEFGHIJKLMNOPQRSTUVWXYZ0123456789_'')"

text \<open>
  The character classes of the source's patterns: the dot (any character but a line
  terminator), \<^verbatim>\<open>\s\<close>, the identifier class \<^verbatim>\<open>[a-zA-Z0-9_\-:.]\<close> and the quote class.
\<close>

datatype cls = Dot | Space | Ident | Quote

fun in_cls :: "cls \<Rightarrow> char \<Rightarrow> bool" where
  "in_cls Dot c = (c \<noteq> CHR 0x0A \<and> c \<noteq> CHR 0x0D)"
| "in_cls Space c = is_space c"
| "in_cls Ident c = (is_word c \<or> c \<in> set ''-:.'')"
| "in_cls Quote c = (c \<in> set [CHR 0x27, CHR 0x22])"

text \<open>
  The fragment of regular expressions that the source uses.  \<open>Star\<close> is the greedy
  \<^verbatim>\<open>c*\<close> and \<open>Lazy\<close> the reluctant \<^verbatim>\<open>c*?\<close> on a class, \<open>Opt\<close> the greedy \<^verbatim>\<open>r?\<close>,
  \<open>Boundary\<close> is \<^verbatim>\<open>\b\<close>, \<open>Cap\<close> the capturing group whose text the source reads
  (group 1; the groups of a pattern that is only tested are not recorded).
\<close>

datatype rx =
    Lit string
  | One cls
  | Star cls
  | Lazy cls
  | Boundary
  | Seq rx rx
  | Alt rx rx
  | Opt rx
  | Cap rx

definition Plus :: "cls \<Rightarrow> rx" where
  "Plus k = Seq (One k) (Star k)"

fun seq :: "rx list \<Rightarrow> rx" where
  "seq [] = Lit []"
| "seq [r] = r"
| "seq (r # rs) = Seq r (seq rs)"

fun alts :: "string list \<Rightarrow> rx" where
  "alts [] = Lit []"
| "alts [s] = Lit s"
| "alts (s # ss) = Alt (Lit s) (alts ss)"

text \<open>
  A matcher state is the text before the position (reversed), the text from the
  position on, and the capture.  \<open>ms\<close> lists the states in which a match of the
  expression can end, in the order in which a backtracking matcher tries them, so the
  head of the list is the match that JavaScript reports.
\<close>

type_synonym mstate = "string \<times> string \<times> string option"

fun lit :: "bool \<Rightarrow> string \<Rightarrow> string \<Rightarrow> string \<Rightarrow> (string \<times> string) option" where
  "lit ic [] b r = Some (b, r)"
| "lit ic (x # xs) b [] = None"
| "lit ic (x # xs) b (y # ys) =
     (if (if ic then to_lower x = to_lower y else x = y) then lit ic xs (y # b) ys else None)"

fun greedy :: "(char \<Rightarrow> bool) \<Rightarrow> string \<Rightarrow> string \<Rightarrow> (string \<times> string) list" where
  "greedy p b [] = [(b, [])]"
| "greedy p b (y # ys) = (if p y then greedy p (y # b) ys @ [(b, y # ys)] else [(b, y # ys)])"

fun reluctant :: "(char \<Rightarrow> bool) \<Rightarrow> string \<Rightarrow> string \<Rightarrow> (string \<times> string) list" where
  "reluctant p b [] = [(b, [])]"
| "reluctant p b (y # ys) = (b, y # ys) # (if p y then reluctant p (y # b) ys else [])"

fun word_start :: "string \<Rightarrow> bool" where
  "word_start [] = False"
| "word_start (c # _) = is_word c"

fun ms :: "bool \<Rightarrow> rx \<Rightarrow> mstate \<Rightarrow> mstate list" where
  "ms ic (Lit s) (b, r, c) = (case lit ic s b r of None \<Rightarrow> [] | Some (b', r') \<Rightarrow> [(b', r', c)])"
| "ms ic (One k) (b, r, c) =
     (case r of [] \<Rightarrow> [] | y # ys \<Rightarrow> if in_cls k y then [(y # b, ys, c)] else [])"
| "ms ic (Star k) (b, r, c) = map (\<lambda>(b', r'). (b', r', c)) (greedy (in_cls k) b r)"
| "ms ic (Lazy k) (b, r, c) = map (\<lambda>(b', r'). (b', r', c)) (reluctant (in_cls k) b r)"
| "ms ic Boundary (b, r, c) = (if word_start b \<noteq> word_start r then [(b, r, c)] else [])"
| "ms ic (Seq p q) s = concat (map (ms ic q) (ms ic p s))"
| "ms ic (Alt p q) s = ms ic p s @ ms ic q s"
| "ms ic (Opt p) s = ms ic p s @ [s]"
| "ms ic (Cap p) (b, r, c) =
     map (\<lambda>(b', r', c'). (b', r', Some (rev (take (length b' - length b) b')))) (ms ic p (b, r, c))"

text \<open>The leftmost match: the first position, from the left, at which the expression matches.\<close>

fun search :: "bool \<Rightarrow> rx \<Rightarrow> string \<Rightarrow> string \<Rightarrow> mstate option" where
  "search ic p b [] = (case ms ic p (b, [], None) of [] \<Rightarrow> None | s # _ \<Rightarrow> Some s)"
| "search ic p b (y # ys) =
     (case ms ic p (b, y # ys, None) of [] \<Rightarrow> search ic p (y # b) ys | s # _ \<Rightarrow> Some s)"

text \<open>\<^verbatim>\<open>/p/.test(q)\<close>, and \<^verbatim>\<open>/p/i.test(q)\<close> when \<open>ic\<close> is set.\<close>

definition rx_test :: "bool \<Rightarrow> rx \<Rightarrow> string \<Rightarrow> bool" where
  "rx_test ic p q = (search ic p [] q \<noteq> None)"

text \<open>
  \<^verbatim>\<open>q.match(/p/)\<close> read at index 1: \<open>None\<close> is the result null, \<open>Some t\<close> a match whose
  group 1 is \<open>t\<close>; \<open>matched\<close> is the truthiness of the result.  In the patterns below
  group 1 takes part in every match; were it undefined, the template literals that use
  it would print the word undefined.
\<close>

fun matched :: "string option \<Rightarrow> bool" where
  "matched None = False"
| "matched (Some t) = True"

definition rx_match :: "bool \<Rightarrow> rx \<Rightarrow> string \<Rightarrow> string option" where
  "rx_match ic p q =
    (case search ic p [] q of
       None \<Rightarrow> None
     | Some (b, r, c) \<Rightarrow> Some (case c of None \<Rightarrow> ''undefined'' | Some t \<Rightarrow> t))"

text \<open>
  The first occurrence of a literal, ignoring case: the text before it and the text
  after it.  \<open>split1\<close> is \<^verbatim>\<open>q.split(/pat/i)[1]\<close> for a non-empty literal: the text
  between the first and the second occurrence (or the end), undefined without an
  occurrence.
\<close>

fun find_lit :: "string \<Rightarrow> string \<Rightarrow> string \<Rightarrow> (string \<times> string) option" where
  "find_lit pat acc [] = (if pat = [] then Some (rev acc, []) else None)"
| "find_lit pat acc (y # ys) =
     (case lit True pat [] (y # ys) of
        Some (b, r) \<Rightarrow> Some (rev acc, r)
      | None \<Rightarrow> find_lit pat (y # acc) ys)"

definition split1 :: "string \<Rightarrow> string \<Rightarrow> string option" where
  "split1 pat q =
    (case find_lit pat [] q of
       None \<Rightarrow> None
     | Some (pre, post) \<Rightarrow>
         Some (case find_lit pat [] post of None \<Rightarrow> post | Some (mid, rest) \<Rightarrow> mid))"

text \<open>\<^verbatim>\<open>s.split("\n")[0]\<close> and \<^verbatim>\<open>s.split(/\s+/).slice(-1)[0]\<close>.\<close>

definition first_line :: "string \<Rightarrow> string" where
  "first_line s = takeWhile (\<lambda>c. c \<noteq> CHR 0x0A) s"

definition last_token :: "string \<Rightarrow> string" where
  "last_token s = rev (takeWhile (\<lambda>c. \<not> is_space c) (rev s))"

definition startsWith :: "string \<Rightarrow> string \<Rightarrow> bool" where
  "startsWith s p = (take (length p) s = p)"

subsection \<open>The patterns of the source\<close>

text \<open>Chatbot2.jsx line 143 (applied to the lower-cased query, no flag) and line 189.\<close>

definition rerun_rx :: rx where
  "rerun_rx = seq [Boundary, Lit ''rerun'', Plus Space, Cap (Plus Ident)]"

definition list_dag_rx :: rx where
  "list_dag_rx = seq [Boundary, Lit ''list'', Boundary, Star Dot, Boundary, Lit ''dag'']"

definition show_all_rx :: rx where
  "show_all_rx = Lit ''show all dags''"

text \<open>Analytics.jsx lines 493, 522, 523, 547, 582, 602, 622, 651; all carry the flag i.\<close>

definition quoted_id :: "rx list" where
  "quoted_id = [Opt (One Quote), Cap (Plus Ident), Opt (One Quote)]"

definition list_rx :: rx where
  "list_rx = seq [Boundary, alts [''list'', ''show'', ''get''], Boundary, Star Dot, Boundary,
                  Alt (Lit ''all'') (Seq (Lit ''dag'') (Opt (Lit ''s''))), Boundary]"

definition search_rx :: rx where
  "search_rx = seq ([Lit ''search'', Star Dot,
                     Alt (Lit ''for'') (Seq (Lit ''dag'') (Opt (Lit ''s''))), Plus Space] @ quoted_id)"

definition search_word_rx :: rx where
  "search_word_rx = seq [Boundary, Lit ''search'', Boundary]"

definition details_rx :: rx where
  "details_rx = seq ([Alt (Seq (Lit ''detail'') (Opt (Lit ''s''))) (alts [''info'', ''status'']),
                      Lazy Dot, alts [''for'', ''of'', ''on''], Plus Space] @ quoted_id)"

definition pause_rx :: rx where
  "pause_rx = seq ([Lit ''pause'', Plus Space] @ quoted_id)"

definition unpause_rx :: rx where
  "unpause_rx = seq ([alts [''unpause'', ''resume'', ''activate''], Plus Space] @ quoted_id)"

definition trigger_rx :: rx where
  "trigger_rx = seq ([alts [''trigger'', ''run'', ''start''], Plus Space] @ quoted_id)"

definition latest_rx :: rx where
  "latest_rx = seq ([alts [''latest'', ''last'', ''recent''], Plus Space, Lit ''run'', Lazy Dot,
                     alts [''for'', ''of''], Plus Space] @ quoted_id)"


section \<open>The world outside and the component state\<close>

text \<open>
  A \<^verbatim>\<open>fetch\<close> either rejects (the server cannot be reached) or answers with a status
  and a body; the body is \<open>None\<close> when \<^verbatim>\<open>res.json()\<close> rejects because the body is not
  JSON.  \<^verbatim>\<open>res.ok\<close> is the status being in 200-299.
\<close>

datatype fetch_outcome = Rejected | Responded nat "jsval option"

definition res_ok :: "nat \<Rightarrow> bool" where
  "res_ok st = (200 \<le> st \<and> st \<le> 299)"

text \<open>
  The environment of one turn: the answer of each endpoint to each request body, the
  configured Groq key (empty when missing), and the runtime's answer to
  \<^verbatim>\<open>v > 0\<close> for an operand that is a string, an array or an object.
\<close>

record env =
  post_run :: "string \<Rightarrow> fetch_outcome"
  post_rerun :: "string \<Rightarrow> fetch_outcome"
  post_groq_command :: "string \<Rightarrow> fetch_outcome"
  post_groq_answer :: "string \<Rightarrow> jsval \<Rightarrow> fetch_outcome"
  groq_key :: string
  gt0_coerced :: "jsval \<Rightarrow> bool"

text \<open>The outbound requests, in the order in which a turn issues them.\<close>

datatype call =
    Run string
  | Rerun_call string
  | Groq_command string
  | Groq_answer string jsval

text \<open>
  The text of a message is a template literal: literal chunks \<open>T\<close>, a character
  beyond ASCII by its code point \<open>U\<close>, an interpolated value \<open>V\<close>, a value printed by
  \<^verbatim>\<open>JSON.stringify(v, null, 2)\<close> \<open>P\<close>, a number \<open>N\<close>, the message of an exception
  \<open>E\<close>, and an upper-cased string \<open>Up\<close>.
\<close>

datatype piece = T string | U nat | V jsval | P jsval | N nat | E js_error | Up string

datatype message = User string | Bot "piece list"

record state =
  messages :: "message list"
  input :: string
  loading :: bool
  dagList :: jsval
  dagDetails :: jsval
  currentPage :: nat
  calls :: "call list"

definition bot :: "piece list \<Rightarrow> state \<Rightarrow> state" where
  "bot t st = st\<lparr>messages := messages st @ [Bot t]\<rparr>"

definition called :: "call \<Rightarrow> state \<Rightarrow> state" where
  "called c st = st\<lparr>calls := calls st @ [c]\<rparr>"

text \<open>A branch ends normally or throws; the state changes made before the throw stay.\<close>

datatype outcome = Done state | Threw js_error state

record mcp_result =
  ok :: bool
  status :: nat
  body :: jsval
  err :: "js_error option"

text \<open>The truthiness of a returned text, for \<^verbatim>\<open>responseText || "..."\<close>.\<close>

fun text_truthy :: "piece list \<Rightarrow> bool" where
  "text_truthy [V v] = truthy v"
| "text_truthy [P v] = (v \<noteq> Undefined)"
| "text_truthy [T s] = (s \<noteq> [])"
| "text_truthy _ = True"

definition text_or :: "piece list \<Rightarrow> piece list \<Rightarrow> piece list" where
  "text_or a b = (if text_truthy a then a else b)"

text \<open>
  \<^verbatim>\<open>v > 0\<close>, \<^verbatim>\<open>v?.[0]\<close> and the own properties that \<^verbatim>\<open>{...v}\<close> copies; the
  elements of a string are its bytes, which are its characters for a text of ASCII.
\<close>

fun gt0 :: "env \<Rightarrow> jsval \<Rightarrow> bool" where
  "gt0 e (Num n) = (0 < n)"
| "gt0 e (Bool b) = b"
| "gt0 e Undefined = False"
| "gt0 e Null = False"
| "gt0 e v = gt0_coerced e v"

fun index0 :: "jsval \<Rightarrow> jsval" where
  "index0 (Arr []) = Undefined"
| "index0 (Arr (x # _)) = x"
| "index0 (Str []) = Undefined"
| "index0 (Str (c # _)) = Str [c]"
| "index0 (Obj kvs) = field (Obj kvs) ''0''"
| "index0 _ = Undefined"

fun spread :: "jsval \<Rightarrow> (string \<times> jsval) list" where
  "spread (Obj kvs) = kvs"
| "spread (Arr xs) = map (\<lambda>i. (show_nat i, xs ! i)) [0..<length xs]"
| "spread (Str s) = map (\<lambda>i. (show_nat i, Str [s ! i])) [0..<length s]"
| "spread _ = []"

section \<open>Backend gateway\<close>

text \<open>callMCPServer, Chatbot2.jsx lines 58-71: a body that is not JSON becomes the empty object.\<close>

definition callMCPServer :: "env \<Rightarrow> string \<Rightarrow> mcp_result" where
  "callMCPServer e query =
    (case post_run e query of
       Rejected \<Rightarrow> \<lparr>ok = False, status = 0, body = Null, err = Some NetworkError\<rparr>
     | Responded st b \<Rightarrow>
         \<lparr>ok = res_ok st, status = st, body = (case b of None \<Rightarrow> Obj [] | Some v \<Rightarrow> v), err = None\<rparr>)"

text \<open>
  callMCPServer, Analytics.jsx lines 426-439 (the same text is Chatbot2.jsx lines
  526-539): \<^verbatim>\<open>await res.json()\<close> stands inside the try block, so its rejection is caught
  with the rejection of the fetch.
\<close>

definition callMCPServer_analytics :: "env \<Rightarrow> string \<Rightarrow> mcp_result" where
  "callMCPServer_analytics e query =
    (case post_run e query of
       Rejected \<Rightarrow> \<lparr>ok = False, status = 0, body = Null, err = Some NetworkError\<rparr>
     | Responded st None \<Rightarrow> \<lparr>ok = False, status = 0, body = Null, err = Some SyntaxError\<rparr>
     | Responded st (Some v) \<Rightarrow> \<lparr>ok = res_ok st, status = st, body = v, err = None\<rparr>)"


section \<open>The pattern-matching chatbot, Analytics.jsx lines 358-981\<close>

subsection \<open>parseMCPResponse, lines 452-478\<close>

text \<open>The first read, \<^verbatim>\<open>body.success\<close>, throws when the body is null.\<close>

definition parseMCPResponse_analytics :: "jsval \<Rightarrow> js_error + piece list" where
  "parseMCPResponse_analytics b =
    (if nullish b then Inl TypeError
     else if truthy (field b ''success'') \<and> truthy (field b ''message'')
       then Inr [V (field b ''message'')]
     else if truthy (field b ''error'') then Inr [U 0x274C, T '' Error: '', V (field b ''error'')]
     else if truthy (field b ''output'') \<and> isString (field b ''output'')
       then Inr [V (field b ''output'')]
     else if truthy (field b ''output'') \<and> truthy (field (field b ''output'') ''message'')
       then Inr [V (field (field b ''output'') ''message'')]
     else if truthy (field b ''output'') \<and>
             (truthy (field (field b ''output'') ''state'') \<or> truthy (field (field b ''output'') ''status''))
       then Inr [T ''Status: '',
                 V (js_or (field (field b ''output'') ''state'') (field (field b ''output'') ''status''))]
     else Inr [P b])"

subsection \<open>The cascade of sendMessage, lines 493-683\<close>

text \<open>
  Which branch of the handler a query enters, and with which captured text.  The tests
  are pure and each branch returns, so the cascade is a function of the query.  In
  \<open>Search\<close> the term is \<^verbatim>\<open>searchMatch?.[1] || query.split(/search/i)[1]?.trim()\<close>,
  the empty string standing for any falsy result; \<open>Freeform\<close> is the default branch.
\<close>

datatype command =
    List
  | Search string
  | Details string
  | Pause string
  | Unpause string
  | Trigger string
  | LatestRun string
  | Freeform string

definition search_term :: "string \<Rightarrow> string" where
  "search_term q =
    (let rest = (case split1 ''search'' q of None \<Rightarrow> [] | Some t \<Rightarrow> trim t)
     in case rx_match True search_rx q of None \<Rightarrow> rest | Some t \<Rightarrow> if t \<noteq> [] then t else rest)"

definition match_analytics :: "string \<Rightarrow> command" where
  "match_analytics q =
    (if rx_test True list_rx q then List
     else if matched (rx_match True search_rx q) \<or> rx_test True search_word_rx q
       then Search (search_term q)
     else case rx_match True details_rx q of Some d \<Rightarrow> Details d | None \<Rightarrow>
          (case rx_match True pause_rx q of Some d \<Rightarrow> Pause d | None \<Rightarrow>
          (case rx_match True unpause_rx q of Some d \<Rightarrow> Unpause d | None \<Rightarrow>
          (case rx_match True trigger_rx q of Some d \<Rightarrow> Trigger d | None \<Rightarrow>
          (case rx_match True latest_rx q of Some d \<Rightarrow> LatestRun d | None \<Rightarrow>
           Freeform q)))))"

subsection \<open>The branches\<close>

text \<open>
  \<^verbatim>\<open>dags.filter(d => !d.is_paused).length\<close> and \<^verbatim>\<open>dags.filter(d => d.is_paused).length\<close>:
  only an array has \<^verbatim>\<open>filter\<close>, and reading \<^verbatim>\<open>is_paused\<close> of a null entry throws.
\<close>

definition count_active_paused :: "jsval \<Rightarrow> js_error + nat \<times> nat" where
  "count_active_paused dags =
    (if isArray dags \<and> list_all (\<lambda>d. \<not> nullish d) (elems dags)
     then Inr (length (filter (\<lambda>d. \<not> truthy (field d ''is_paused'')) (elems dags)),
               length (filter (\<lambda>d. truthy (field d ''is_paused'')) (elems dags)))
     else Inl TypeError)"

definition list_analytics :: "env \<Rightarrow> state \<Rightarrow> outcome" where
  "list_analytics e st =
    (let st1 = called (Run ''list all dags'') st;
         result = callMCPServer_analytics e ''list all dags''
     in if ok result \<and> truthy (body result) then
          (let dags = extractDags_analytics (body result)
           in if gt0 e (field dags ''length'') then
                (let st2 = st1\<lparr>dagList := dags, currentPage := 1\<rparr>
                 in case count_active_paused dags of
                      Inl x \<Rightarrow> Threw x st2
                    | Inr (active, paused) \<Rightarrow>
                        Done (bot [U 0x1F4CA, T '' Found **'', V (field dags ''length''),
                                   T '' DAGs**\<newline>\<newline>'', U 0x2705, T '' Active: '', N active,
                                   T ''\<newline>'', U 0x23F8, U 0xFE0F, T '' Paused: '', N paused,
                                   T ''\<newline>\<newline>Showing in table below.''] st2))
              else Done (bot [T ''No DAGs found.''] st1))
        else Done (bot [U 0x274C, T '' Could not connect to Airflow server.''] st1))"

definition search_analytics :: "env \<Rightarrow> string \<Rightarrow> state \<Rightarrow> outcome" where
  "search_analytics e searchTerm st =
    (if searchTerm \<noteq> [] then
       (let st1 = called (Run (''search dags '' @ searchTerm)) st;
            result = callMCPServer_analytics e (''search dags '' @ searchTerm)
        in if ok result then
             (let dags = extractDags_analytics (body result)
              in if gt0 e (field dags ''length'') then
                   Done (bot [U 0x1F50D, T '' Found '', V (field dags ''length''),
                              T '' DAG(s) matching \"'', T searchTerm, T ''\"'']
                           (st1\<lparr>dagList := dags, currentPage := 1\<rparr>))
                 else Done (bot [T ''No DAGs found matching \"'', T searchTerm, T ''\"''] st1))
           else Done st1)
     else Done st)"

text \<open>
  The two requests of the details branch are created before either is awaited, and
  \<^verbatim>\<open>Promise.all\<close> awaits both; callMCPServer never rejects.  The record is
  \<^verbatim>\<open>{dag_id: dagId, ...detailsRes.body}\<close>, so a property of the body overrides
  \<^verbatim>\<open>dag_id\<close>.
\<close>

definition details_analytics :: "env \<Rightarrow> string \<Rightarrow> state \<Rightarrow> outcome" where
  "details_analytics e dagId st =
    (let st1 = called (Run (''get latest run '' @ dagId)) (called (Run (''get dag details '' @ dagId)) st);
         detailsRes = callMCPServer_analytics e (''get dag details '' @ dagId);
         runRes = callMCPServer_analytics e (''get latest run '' @ dagId)
     in if ok detailsRes then
          (let details = spread (body detailsRes) @ [(''dag_id'', Str dagId)];
               details' = (if ok runRes then (''latest_run'', body runRes) # details else details)
           in Done (bot [U 0x1F4CB, T '' Details for `'', T dagId, T ''` shown below.'']
                      (st1\<lparr>dagDetails := Obj details'\<rparr>)))
        else Done (bot [U 0x274C, T '' DAG `'', T dagId, T ''` not found.''] st1))"

definition pause_analytics :: "env \<Rightarrow> string \<Rightarrow> state \<Rightarrow> outcome" where
  "pause_analytics e dagId st =
    (let st1 = called (Run (''pause dag '' @ dagId)) st;
         result = callMCPServer_analytics e (''pause dag '' @ dagId)
     in if ok result then
          (case parseMCPResponse_analytics (body result) of
             Inl x \<Rightarrow> Threw x st1
           | Inr responseText \<Rightarrow>
               Done (bot ([U 0x23F8, U 0xFE0F, T '' Pause request sent for `'', T dagId,
                           T ''`\<newline>\<newline>Server response:\<newline>''] @ responseText) st1))
        else Done (bot [U 0x274C, T '' Failed to pause `'', T dagId, T ''`. Server returned: '',
                        N (status result)] st1))"

definition unpause_analytics :: "env \<Rightarrow> string \<Rightarrow> state \<Rightarrow> outcome" where
  "unpause_analytics e dagId st =
    (let st1 = called (Run (''unpause dag '' @ dagId)) st;
         result = callMCPServer_analytics e (''unpause dag '' @ dagId)
     in if ok result then
          (case parseMCPResponse_analytics (body result) of
             Inl x \<Rightarrow> Threw x st1
           | Inr responseText \<Rightarrow>
               Done (bot ([U 0x25B6, U 0xFE0F, T '' Unpause request sent for `'', T dagId,
                           T ''`\<newline>\<newline>Server response:\<newline>''] @ responseText) st1))
        else Done (bot [U 0x274C, T '' Failed to unpause `'', T dagId, T ''`. Server returned: '',
                        N (status result)] st1))"

definition trigger_analytics :: "env \<Rightarrow> string \<Rightarrow> state \<Rightarrow> outcome" where
  "trigger_analytics e dagId st =
    (let st1 = called (Run (''trigger dag '' @ dagId)) st;
         result = callMCPServer_analytics e (''trigger dag '' @ dagId)
     in if ok result then
          (case parseMCPResponse_analytics (body result) of
             Inl x \<Rightarrow> Threw x st1
           | Inr responseText \<Rightarrow>
               (let runId = js_or (field (body result) ''dag_run_id'')
                              (js_or (field (field (body result) ''output'') ''dag_run_id'')
                                     (field (field (body result) ''data'') ''dag_run_id''))
                in if truthy runId then
                     Done (bot ([U 0x1F680, T '' Triggered `'', T dagId, T ''`\<newline>\<newline>Run ID: `'',
                                 V runId, T ''`\<newline>\<newline>Server response:\<newline>''] @ responseText) st1)
                   else
                     Done (bot ([U 0x1F680, T '' Trigger request sent for `'', T dagId,
                                 T ''`\<newline>\<newline>Server response:\<newline>''] @ responseText) st1)))
        else Done (bot [U 0x274C, T '' Failed to trigger `'', T dagId, T ''`. Server returned: '',
                        N (status result)] st1))"

text \<open>
  \<^verbatim>\<open>run.state?.toUpperCase() || 'UNKNOWN'\<close>: a state that is neither nullish nor a
  string has no \<^verbatim>\<open>toUpperCase\<close>, and the call throws.
\<close>

fun upper_state :: "jsval \<Rightarrow> js_error + piece" where
  "upper_state Undefined = Inr (T ''UNKNOWN'')"
| "upper_state Null = Inr (T ''UNKNOWN'')"
| "upper_state (Str s) = Inr (if s = [] then T ''UNKNOWN'' else Up s)"
| "upper_state _ = Inl TypeError"

definition latest_analytics :: "env \<Rightarrow> string \<Rightarrow> state \<Rightarrow> outcome" where
  "latest_analytics e dagId st =
    (let st1 = called (Run (''get latest run '' @ dagId)) st;
         result = callMCPServer_analytics e (''get latest run '' @ dagId)
     in if ok result \<and> truthy (body result) then
          (case parseMCPResponse_analytics (body result) of
             Inl x \<Rightarrow> Threw x st1
           | Inr responseText \<Rightarrow>
               (let run = js_or (field (body result) ''output'') (body result)
                in if truthy (field run ''state'') \<or> truthy (field run ''dag_run_id'') then
                     (case upper_state (field run ''state'') of
                        Inl x \<Rightarrow> Threw x st1
                      | Inr up \<Rightarrow>
                          Done (bot [U 0x1F504, T '' Latest run for `'', T dagId,
                                     T ''`:\<newline>\<newline>State: **'', up, T ''**\<newline>Started: '',
                                     V (js_or (field run ''start_date'') (Str ''N/A'')),
                                     T ''\<newline>Run ID: `'',
                                     V (js_or (field run ''dag_run_id'') (Str ''N/A'')), T ''`''] st1))
                   else
                     Done (bot ([U 0x1F504, T '' Latest run info for `'', T dagId, T ''`:\<newline>\<newline>'']
                                @ responseText) st1)))
        else Done (bot [T ''No runs found for `'', T dagId, T ''`''] st1))"

definition default_analytics :: "env \<Rightarrow> string \<Rightarrow> state \<Rightarrow> outcome" where
  "default_analytics e query st =
    (let st1 = called (Run query) st;
         result = callMCPServer_analytics e query
     in if ok result then
          (case parseMCPResponse_analytics (body result) of
             Inl x \<Rightarrow> Threw x st1
           | Inr responseText \<Rightarrow>
               Done (bot (text_or responseText [T ''Request completed but no response data.'']) st1))
        else Done (bot [U 0x274C, T '' Server error ('', N (status result),
                        T ''). Make sure the MCP server is running on port 8800.\<newline>\<newline>Query: \"'',
                        T query, T ''\"''] st1))"

fun dispatch_analytics :: "env \<Rightarrow> command \<Rightarrow> state \<Rightarrow> outcome" where
  "dispatch_analytics e List st = list_analytics e st"
| "dispatch_analytics e (Search t) st = search_analytics e t st"
| "dispatch_analytics e (Details d) st = details_analytics e d st"
| "dispatch_analytics e (Pause d) st = pause_analytics e d st"
| "dispatch_analytics e (Unpause d) st = unpause_analytics e d st"
| "dispatch_analytics e (Trigger d) st = trigger_analytics e d st"
| "dispatch_analytics e (LatestRun d) st = latest_analytics e d st"
| "dispatch_analytics e (Freeform q) st = default_analytics e q st"

text \<open>The catch and finally clauses of lines 699-704.\<close>

fun finish :: "outcome \<Rightarrow> state" where
  "finish (Done st) = st\<lparr>loading := False\<rparr>"
| "finish (Threw x st) = (bot [U 0x274C, T '' Error: '', E x] st)\<lparr>loading := False\<rparr>"

subsection \<open>sendMessage, lines 481-705\<close>

definition sendMessage_analytics :: "env \<Rightarrow> state \<Rightarrow> state" where
  "sendMessage_analytics e st =
    (if trim (input st) = [] then st
     else
       (let query = trim (input st);
            st0 = st\<lparr>messages := messages st @ [User (input st)], input := [],
                     loading := True, dagDetails := Null\<rparr>
        in finish (dispatch_analytics e (match_analytics query) st0)))"


section \<open>The chatbot with the rerun endpoint, Chatbot2.jsx lines 1-454\<close>

subsection \<open>callGroqModel, lines 74-100\<close>

text \<open>
  The reply and the request issued, if any.  Every exception is caught inside:
  \<^verbatim>\<open>data.choices\<close> throws for a null \<open>data\<close>, \<^verbatim>\<open>res.json()\<close> rejects for a body that
  is not JSON.
\<close>

definition callGroqModel :: "env \<Rightarrow> string \<Rightarrow> jsval \<Rightarrow> piece list \<times> call list" where
  "callGroqModel e userMessage airflowData =
    (if groq_key e = [] then ([T ''Missing Groq API key. Add VITE_GROQ_API_KEY to .env''], [])
     else
       (case post_groq_answer e userMessage airflowData of
          Rejected \<Rightarrow> [T ''Groq Error: '', E NetworkError]
        | Responded st None \<Rightarrow> [T ''Groq Error: '', E SyntaxError]
        | Responded st (Some data) \<Rightarrow>
            if nullish data then [T ''Groq Error: '', E TypeError]
            else [V (js_or (field (field (index0 (field data ''choices'')) ''message'') ''content'')
                           (Str ''Error: No response from model.''))],
        [Groq_answer userMessage airflowData]))"

subsection \<open>The cascade of sendMessage, lines 143-225\<close>

datatype branch = Rerun string | ListDags | Default string

definition match_chatbot2 :: "string \<Rightarrow> branch" where
  "match_chatbot2 q =
    (case rx_match False rerun_rx (toLowerCase q) of
       Some dagId \<Rightarrow> Rerun dagId
     | None \<Rightarrow>
         if rx_test True list_dag_rx q \<or> rx_test True show_all_rx q then ListDags else Default q)"

definition rerun_chatbot2 :: "env \<Rightarrow> string \<Rightarrow> state \<Rightarrow> state" where
  "rerun_chatbot2 e dagId st =
    (let st1 = called (Rerun_call dagId) st
     in case post_rerun e dagId of
          Rejected \<Rightarrow>
            bot [T ''Error: Could not reach MCP server. Is it running on port 8800? ('',
                 E NetworkError, T '')''] st1
        | Responded code b \<Rightarrow>
            (let rbody = (case b of None \<Rightarrow> Obj [] | Some v \<Rightarrow> v)
             in if res_ok code \<and> truthy (field rbody ''success'') then
                  (let d = field rbody ''data'';
                       runId = js_or (field d ''dag_run_id'') (js_or (field d ''run_id'')
                                 (js_or (field d ''dagRunId'') (field (field d ''dag_run'') ''dag_run_id'')))
                   in bot [T ''DAG `'', T dagId, T ''` has been triggered successfully.\<newline>Run ID: `'',
                           V (js_or runId (Str ''manual'')), T ''`''] st1)
                else if res_ok code then
                  bot [T ''Failed to trigger DAG `'', T dagId,
                       T ''`. Server responded with unexpected payload.''] st1
                else
                  bot [T ''Error: Failed to trigger DAG `'', T dagId, T ''`. HTTP '', N code] st1))"

definition list_chatbot2 :: "env \<Rightarrow> state \<Rightarrow> state" where
  "list_chatbot2 e st =
    (let st1 = called (Run ''list all dags'') st;
         result = callMCPServer e ''list all dags''
     in if \<not> ok result then bot [T ''No DAGs found or server not responding.''] st1
        else
          (let dags = extractDags (body result)
           in if dags \<noteq> [] then
                (let normalized = normalizeDagList dags
                 in bot [T ''Found '', N (length normalized), T '' DAGs. Showing in table below.'']
                      (st1\<lparr>dagList := Arr normalized, currentPage := 1\<rparr>))
              else bot [T ''No DAGs found or server not responding.''] st1))"

definition default_chatbot2 :: "env \<Rightarrow> string \<Rightarrow> state \<Rightarrow> state" where
  "default_chatbot2 e query st =
    (let st1 = called (Run query) st;
         mcpRes = callMCPServer e query;
         (reply, cs) = callGroqModel e query (body mcpRes)
     in bot (text_or reply [T ''No response from model.'']) (st1\<lparr>calls := calls st1 @ cs\<rparr>))"

fun dispatch_chatbot2 :: "env \<Rightarrow> branch \<Rightarrow> state \<Rightarrow> state" where
  "dispatch_chatbot2 e (Rerun dagId) st = rerun_chatbot2 e dagId st"
| "dispatch_chatbot2 e ListDags st = list_chatbot2 e st"
| "dispatch_chatbot2 e (Default q) st = default_chatbot2 e q st"

subsection \<open>sendMessage, lines 132-225\<close>

definition sendMessage_chatbot2 :: "env \<Rightarrow> state \<Rightarrow> state" where
  "sendMessage_chatbot2 e st =
    (if trim (input st) = [] then st
     else
       (let st0 = st\<lparr>messages := messages st @ [User (input st)], input := [], loading := True\<rparr>;
            query = trim (input st)
        in (dispatch_chatbot2 e (match_chatbot2 query) st0)\<lparr>loading := False\<rparr>))"

section \<open>The chatbot driven by the language model, Chatbot2.jsx lines 456-1029\<close>

subsection \<open>parseMCPResponse, lines 552-587\<close>

definition parseMCPResponse_ai :: "jsval \<Rightarrow> piece list" where
  "parseMCPResponse_ai b =
    (if \<not> truthy b then [T ''No response body.'']
     else if truthy (field b ''success'') \<and> truthy (field b ''message'') then [V (field b ''message'')]
     else if truthy (field b ''error'') then [U 0x274C, T '' Error: '', V (field b ''error'')]
     else if truthy (field b ''output'') \<and> isString (field b ''output'') then [V (field b ''output'')]
     else if truthy (field b ''output'') \<and> truthy (field (field b ''output'') ''message'')
       then [V (field (field b ''output'') ''message'')]
     else if truthy (field b ''output'') \<and>
             (truthy (field (field b ''output'') ''state'') \<or> truthy (field (field b ''output'') ''status''))
       then [T ''Status: '',
             V (js_or (field (field b ''output'') ''state'') (field (field b ''output'') ''status''))]
     else if truthy (field b ''message'') then [V (field b ''message'')]
     else if truthy (field b ''data'') then [P (field b ''data'')]
     else [P b])"

subsection \<open>sendToAI, lines 590-661\<close>

text \<open>
  The command that the model's reply is read as (\<open>None\<close> is the result null) and the
  request issued, if any.  A content that is truthy but not a string has no
  \<^verbatim>\<open>split\<close>; the call throws and the catch clause returns null.
\<close>

definition sendToAI :: "env \<Rightarrow> string \<Rightarrow> string option \<times> call list" where
  "sendToAI e txt =
    (if groq_key e = [] then (None, [])
     else
       (case post_groq_command e txt of
          Rejected \<Rightarrow> None
        | Responded st None \<Rightarrow> None
        | Responded st (Some data) \<Rightarrow>
            (let choice = index0 (field data ''choices'');
                 content = js_or (field (field choice ''message'') ''content'')
                             (js_or (field choice ''text'') (if isString data then data else Null))
             in if \<not> truthy content then None
                else (case content of Str s \<Rightarrow> Some (trim (first_line s)) | _ \<Rightarrow> None)),
        [Groq_command txt]))"

subsection \<open>sendMessage, lines 664-753\<close>

definition fallback_ai :: "env \<Rightarrow> string \<Rightarrow> state \<Rightarrow> state" where
  "fallback_ai e userQuery st =
    (let st1 = bot [U 0x26A0, U 0xFE0F,
                    T '' Groq API key not configured. Falling back to local heuristics (no AI).''] st;
         st2 = called (Run userQuery) st1;
         fallbackRes = callMCPServer_analytics e userQuery
     in if ok fallbackRes then
          (let st3 = bot (parseMCPResponse_ai (body fallbackRes)) st2;
               dags = extractDags_analytics (body fallbackRes)
           in if gt0 e (field dags ''length'') then st3\<lparr>dagList := dags, currentPage := 1\<rparr> else st3)
        else bot [U 0x274C, T '' MCP Server error ('', N (status fallbackRes), T '')''] st2)"

definition execute_ai :: "env \<Rightarrow> string \<Rightarrow> state \<Rightarrow> state" where
  "execute_ai e aiCommand st =
    (let st1 = bot [U 0x1F501, T '' Interpreted as: `'', T aiCommand, T ''`''] st;
         st2 = called (Run aiCommand) st1;
         result = callMCPServer_analytics e aiCommand
     in if \<not> ok result then
          bot [U 0x274C, T '' MCP Server error ('', N (status result),
               T ''). Make sure the MCP server is running on http://localhost:8800/run.''] st2
        else
          (let st3 = bot (text_or (parseMCPResponse_ai (body result))
                            [T ''Request completed but no response data.'']) st2;
               dags = extractDags_analytics (body result)
           in if gt0 e (field dags ''length'') then st3\<lparr>dagList := dags, currentPage := 1\<rparr>
              else if startsWith aiCommand ''get dag details'' \<or> startsWith aiCommand ''get latest run''
                then st3\<lparr>dagDetails := Obj (spread (body result) @ [(''dag_id'', Str (last_token aiCommand))])\<rparr>
              else st3))"

definition interpret_ai :: "env \<Rightarrow> string \<Rightarrow> state \<Rightarrow> state" where
  "interpret_ai e userQuery st =
    (let st1 = bot [U 0x1F916, T '' Interpreting your request...''] st;
         (reply, cs) = sendToAI e userQuery;
         st2 = st1\<lparr>calls := calls st1 @ cs\<rparr>
     in case reply of
          None \<Rightarrow> bot [U 0x274C, T '' AI could not interpret the request. Try rephrasing.''] st2
        | Some aiCommand \<Rightarrow>
            if aiCommand = [] then
              bot [U 0x274C, T '' AI could not interpret the request. Try rephrasing.''] st2
            else execute_ai e aiCommand st2)"

definition sendMessage_ai :: "env \<Rightarrow> state \<Rightarrow> state" where
  "sendMessage_ai e st =
    (if trim (input st) = [] then st
     else
       (let userQuery = trim (input st);
            st0 = st\<lparr>messages := messages st @ [User (input st)], input := [],
                     loading := True, dagDetails := Null\<rparr>
        in (if groq_key e = [] then fallback_ai e userQuery st0
            else interpret_ai e userQuery st0)\<lparr>loading := False\<rparr>))"


section \<open>The textual command forms\<close>

text \<open>
  The seven forms that the system prompt of sendToAI (lines 612-619) lists, as the
  specification reads them: the fixed phrase, or a verb phrase followed by a search term
  or by an identifier of the class \<^verbatim>\<open>[A-Za-z0-9_\-:.]+\<close>.  The source has no parser
  for them; the predicate is here to state what the source does with a reply that is
  none of them.
\<close>

definition recognized_form :: "string \<Rightarrow> bool" where
  "recognized_form s =
    (s = ''list all dags''
     \<or> (startsWith s ''search dags '' \<and> trim (drop 12 s) \<noteq> [])
     \<or> list_ex (\<lambda>p. startsWith s p \<and> drop (length p) s \<noteq> [] \<and> list_all (in_cls Ident) (drop (length p) s))
          [''get dag details '', ''get latest run '', ''pause dag '', ''unpause dag '', ''trigger dag ''])"

section \<open>The cascades as ordered rule lists\<close>




section \<open>Example environments and states\<close>

text \<open>
  The answer of the example environments to \<^verbatim>\<open>v > 0\<close> for an operand that is a string,
  an array or an object.  A string of decimal digits, with white space around it or
  without, is the number that it spells, so it is positive when one of its digits is
  not 0.  Every other operand is answered no; this is JavaScript's answer for a text that
  spells no number, for an object, and for an array of no element or of more than one.
  The examples hold no number spelled with a sign, a fraction or an exponent and no array
  of one element, which JavaScript converts further.
\<close>

definition digits_gt0 :: "jsval \<Rightarrow> bool" where
  "digits_gt0 v =
    (case v of
       Str s \<Rightarrow> trim s \<noteq> [] \<and> list_all (\<lambda>c. c \<in> set ''0123456789'') (trim s)
                  \<and> list_ex (\<lambda>c. c \<noteq> CHR ''0'') (trim s)
     | _ \<Rightarrow> False)"

text \<open>An environment in which every endpoint gives the same answer, and an idle component.\<close>

definition answering :: "fetch_outcome \<Rightarrow> string \<Rightarrow> env" where
  "answering r k =
    \<lparr>post_run = (\<lambda>q. r), post_rerun = (\<lambda>d. r), post_groq_command = (\<lambda>t. r),
     post_groq_answer = (\<lambda>m d. r), groq_key = k, gt0_coerced = digits_gt0\<rparr>"

definition model_says :: "string \<Rightarrow> fetch_outcome \<Rightarrow> env" where
  "model_says reply r =
    (answering r ''key'')\<lparr>post_groq_command :=
       (\<lambda>t. Responded 200 (Some (Obj [(''choices'',
          Arr [Obj [(''message'', Obj [(''content'', Str reply)])]])])))\<rparr>"

definition idle :: "string \<Rightarrow> state" where
  "idle txt =
    \<lparr>messages = [], input = txt, loading = False, dagList = Arr [], dagDetails = Null,
     currentPage = 1, calls = []\<rparr>"

text \<open>
  A backend whose details request succeeds with a body that carries its own
  \<^verbatim>\<open>latest_run\<close>, and whose latest-run request cannot be reached.
\<close>

definition stale_details :: env where
  "stale_details =
    (answering (Responded 200 (Some (Obj [(''latest_run'', Str ''stale'')]))) [])\<lparr>post_run :=
       (\<lambda>q. if q = ''get latest run nightly_etl'' then Rejected
             else Responded 200 (Some (Obj [(''latest_run'', Str ''stale'')])))\<rparr>"

definition run_unreachable :: env where
  "run_unreachable =
    (answering (Responded 200 (Some (Obj [(''is_paused'', Bool False)]))) [])\<lparr>post_run :=
       (\<lambda>q. if q = ''get latest run nightly_etl'' then Rejected
             else Responded 200 (Some (Obj [(''is_paused'', Bool False)])))\<rparr>"

section \<open>Evaluation rules and lemmas\<close>

text \<open>The definitions that a concrete query or turn is evaluated with.\<close>

lemmas trim_defs = trim_def is_space_def space2_def space3_def

lemmas rx_defs = rx_test_def rx_match_def Plus_def quoted_id_def is_word_def to_lower_def
  toLowerCase_def split1_def trim_defs

lemmas send_defs = bot_def called_def answering_def idle_def model_says_def res_ok_def Let_def

subsection \<open>Values, extractDags and normalizeDagList\<close>

lemma field_nullish: "nullish v \<Longrightarrow> field v k = Undefined"
  by (cases v) simp_all

lemma nullish_not_truthy: "nullish v \<Longrightarrow> \<not> truthy v"
  by (cases v) simp_all

lemma access_truthy: "truthy v \<Longrightarrow> access v k = Inr (field v k)"
  using nullish_not_truthy [of v] by (auto simp: access_def)

lemma access_opt_total: "access_opt v k = Inr (field v k)"
  by (simp add: access_opt_def access_def field_nullish)

lemma and_then_Inr: "and_then (Inr x) f = f x"
  by (simp add: and_then_def)

lemma extractDags_strict_total: "extractDags_strict p = Inr (extractDags p)"
  by (simp add: extractDags_strict_def extractDags_def access_truthy and_then_Inr)

lemma extractDags_analytics_strict_total:
  "extractDags_analytics_strict p = Inr (extractDags_analytics p)"
  by (simp add: extractDags_analytics_strict_def extractDags_analytics_def access_truthy
        access_opt_total and_then_Inr)

lemma extractDags_idempotent: "extractDags (Arr (extractDags p)) = extractDags p"
  by (simp add: extractDags_def)

lemma show_nat_nonempty: "show_nat n \<noteq> []"
  by (subst show_nat.simps) simp

lemma stringify_truthy: "truthy d \<Longrightarrow> \<exists>s. JSON_stringify d = Some s \<and> s \<noteq> []"
  by (cases d) (auto simp: show_int_def show_nat_nonempty quote_def)

lemma truthy_js_or: "truthy (js_or a b) = (truthy a \<or> truthy b)"
  by (simp add: js_or_def)

lemma truthy_stringified: "truthy d \<Longrightarrow> truthy (stringified d)"
  using stringify_truthy [of d] by (auto simp: stringified_def)

lemma truthy_normalize_entry: "truthy (normalize_entry d) = truthy d"
  by (auto simp: normalize_entry_def truthy_js_or truthy_stringified)

lemma normalizeDagList_filter_map:
  "normalizeDagList raw = map normalize_entry (filter truthy raw)"
  by (induction raw) (simp_all add: normalizeDagList_def truthy_normalize_entry)

subsection \<open>White space\<close>

text \<open>
  A text is blank exactly when it is a concatenation of characters of the table, and
  \<^verbatim>\<open>trim()\<close> yields the empty string exactly on the blank texts.
\<close>

lemma blank_Cons1: "is_space a \<Longrightarrow> blank (a # s) = blank s"
  by (cases s rule: trimStart.cases) simp_all

lemma blank_Cons2: "space2 a b \<Longrightarrow> blank (a # b # s) = blank s"
  by (cases s) (simp_all add: space2_def is_space_def)

lemma blank_Cons3: "space3 a b c \<Longrightarrow> blank (a # b # c # s) = blank s"
  by (auto simp: space3_def space2_def is_space_def)

lemma blank_white_space: "w \<in> set white_space \<Longrightarrow> blank (w @ s) = blank s"
  by (auto simp: white_space_def blank_Cons1 blank_Cons2 blank_Cons3 is_space_def space2_def space3_def)

lemma blank_concat: "set ws \<subseteq> set white_space \<Longrightarrow> blank (concat ws)"
  by (induction ws) (simp_all add: blank_white_space)

lemma space1_white: "is_space a \<Longrightarrow> [a] \<in> set white_space"
  by (auto simp: is_space_def white_space_def)

lemma space2_white: "space2 a b \<Longrightarrow> [a, b] \<in> set white_space"
  by (simp add: space2_def white_space_def)

lemma space3_white: "space3 a b c \<Longrightarrow> [a, b, c] \<in> set white_space"
  by (auto simp: space3_def white_space_def)

lemma blank_is_concat: "blank s \<Longrightarrow> \<exists>ws. set ws \<subseteq> set white_space \<and> s = concat ws"
proof (induction s rule: blank.induct)
  case (1 a b c s)
  show ?case
  proof (cases "is_space a")
    case True
    with 1 obtain ws where "set ws \<subseteq> set white_space" "b # c # s = concat ws" by auto
    with True show ?thesis
      by (intro exI [of _ "[a] # ws"]) (simp add: space1_white)
  next
    case na: False
    show ?thesis
    proof (cases "space2 a b")
      case True
      with na 1 obtain ws where "set ws \<subseteq> set white_space" "c # s = concat ws" by auto
      with True show ?thesis
        by (intro exI [of _ "[a, b] # ws"]) (simp add: space2_white)
    next
      case nb: False
      with na 1 have s3: "space3 a b c" and "blank s"
        by (auto split: if_splits)
      with na nb 1 obtain ws where "set ws \<subseteq> set white_space" "s = concat ws" by auto
      with s3 show ?thesis
        by (intro exI [of _ "[a, b, c] # ws"]) (simp add: space3_white)
    qed
  qed
next
  case (2 a b)
  show ?case
  proof (cases "is_space a")
    case True
    with 2 have "is_space b" by simp
    with True show ?thesis
      by (intro exI [of _ "[[a], [b]]"]) (simp add: space1_white)
  next
    case False
    with 2 have "space2 a b" by simp
    then show ?thesis
      by (intro exI [of _ "[[a, b]]"]) (simp add: space2_white)
  qed
next
  case (3 a)
  then show ?case
    by (intro exI [of _ "[[a]]"]) (simp add: space1_white)
next
  case 4
  show ?case
    by (intro exI [of _ "[]"]) simp
qed

lemma blank_iff: "blank s \<longleftrightarrow> (\<exists>ws. set ws \<subseteq> set white_space \<and> s = concat ws)"
  using blank_is_concat [of s] blank_concat by auto

lemma trimStart_blank: "blank s \<Longrightarrow> trimStart s = []"
  by (induction s rule: trimStart.induct) (auto split: if_splits)

lemma blank_trimStart: "blank (trimStart s) \<Longrightarrow> blank s"
  by (induction s rule: trimStart.induct) (auto split: if_splits)

lemma trimEnd_empty: "trimEnd s = [] \<longleftrightarrow> blank s"
  by (cases s) simp_all

lemma trim_empty_iff_blank: "trim s = [] \<longleftrightarrow> blank s"
  using trimStart_blank [of s] blank_trimStart [of s] by (auto simp: trim_def trimEnd_empty)

lemma trim_empty_iff:
  "trim s = [] \<longleftrightarrow> (\<exists>ws. set ws \<subseteq> set white_space \<and> s = concat ws)"
  by (simp add: trim_empty_iff_blank blank_iff)

subsection \<open>The gateway and the handlers\<close>

lemma callMCPServer_parse_failure:
  "post_run e q = Responded code None \<Longrightarrow>
   callMCPServer e q = \<lparr>ok = res_ok code, status = code, body = Obj [], err = None\<rparr>"
  by (simp add: callMCPServer_def)

lemma search_without_term: "search_analytics e [] st = Done st"
  by (simp add: search_analytics_def)

lemma search_without_term_turn:
  "trim (input st) \<noteq> [] \<Longrightarrow> match_analytics (trim (input st)) = Search [] \<Longrightarrow>
   sendMessage_analytics e st
     = st\<lparr>messages := messages st @ [User (input st)], input := [], loading := False,
          dagDetails := Null\<rparr>"
  by (simp add: sendMessage_analytics_def search_without_term)

lemma calls_execute_ai: "calls (execute_ai e c st) = calls st @ [Run c]"
  by (simp add: execute_ai_def bot_def called_def Let_def)

lemma falsy_field_not_array: "\<not> truthy v \<Longrightarrow> \<not> isArray (field v k)"
  by (cases v) simp_all

lemma falsy_field_falsy: "\<not> truthy v \<Longrightarrow> \<not> truthy (field v k)"
  by (cases v) simp_all

lemma isArray_truthy: "isArray v \<Longrightarrow> truthy v"
  by (cases v) simp_all

lemma sendToAI_calls: "groq_key e \<noteq> [] \<Longrightarrow> snd (sendToAI e t) = [Groq_command t]"
  by (simp add: sendToAI_def)

subsection \<open>What a match of a pattern says about the text\<close>




























subsection \<open>The cascades\<close>



lemma match_details_example:
  "match_analytics ''get details for nightly_etl'' = Details ''nightly_etl''"
  by (simp add: match_analytics_def rx_defs list_rx_def search_rx_def search_word_rx_def
        details_rx_def)

lemma match_list_example: "match_chatbot2 ''list all dags'' = ListDags"
  by (simp add: match_chatbot2_def rx_defs rerun_rx_def list_dag_rx_def)

lemma match_list_analytics_example: "match_analytics ''list all dags'' = List"
  by (simp add: match_analytics_def rx_defs list_rx_def)

section \<open>The properties of the specification\<close>

text \<open>
  C10.  An input that is empty once trimmed makes the turn a no-op in each of the three
  handlers: the whole state, which holds the messages, the DAG list, the detail record,
  the in-progress flag and the log of outbound requests, is returned unchanged.  By
  \<open>trim_empty_iff\<close> these inputs are the empty text and every text made of white space
  characters only, of any of the 25.
\<close>

theorem blank_input_is_noop:
  assumes "trim (input st) = []"
  shows "sendMessage_analytics e st = st \<and> sendMessage_chatbot2 e st = st \<and> sendMessage_ai e st = st"
  using assms by (simp add: sendMessage_analytics_def sendMessage_chatbot2_def sendMessage_ai_def)

text \<open>
  C10, at the input made of a blank, a tab, U+00A0, U+2028, U+FEFF, U+3000 and a line
  feed, with a backend that cannot be reached.
\<close>

theorem blank_input_is_noop_witness:
  "trim (input (idle [CHR 0x20, CHR 0x09, CHR 0xC2, CHR 0xA0, CHR 0xE2, CHR 0x80, CHR 0xA8,
                      CHR 0xEF, CHR 0xBB, CHR 0xBF, CHR 0xE3, CHR 0x80, CHR 0x80, CHR 0x0A])) = []
   \<and> sendMessage_analytics (answering Rejected [])
         (idle [CHR 0x20, CHR 0x09, CHR 0xC2, CHR 0xA0, CHR 0xE2, CHR 0x80, CHR 0xA8,
                CHR 0xEF, CHR 0xBB, CHR 0xBF, CHR 0xE3, CHR 0x80, CHR 0x80, CHR 0x0A])
       = idle [CHR 0x20, CHR 0x09, CHR 0xC2, CHR 0xA0, CHR 0xE2, CHR 0x80, CHR 0xA8,
               CHR 0xEF, CHR 0xBB, CHR 0xBF, CHR 0xE3, CHR 0x80, CHR 0x80, CHR 0x0A]
   \<and> sendMessage_chatbot2 (answering Rejected [])
         (idle [CHR 0x20, CHR 0x09, CHR 0xC2, CHR 0xA0, CHR 0xE2, CHR 0x80, CHR 0xA8,
                CHR 0xEF, CHR 0xBB, CHR 0xBF, CHR 0xE3, CHR 0x80, CHR 0x80, CHR 0x0A])
       = idle [CHR 0x20, CHR 0x09, CHR 0xC2, CHR 0xA0, CHR 0xE2, CHR 0x80, CHR 0xA8,
               CHR 0xEF, CHR 0xBB, CHR 0xBF, CHR 0xE3, CHR 0x80, CHR 0x80, CHR 0x0A]
   \<and> sendMessage_ai (answering Rejected [])
         (idle [CHR 0x20, CHR 0x09, CHR 0xC2, CHR 0xA0, CHR 0xE2, CHR 0x80, CHR 0xA8,
                CHR 0xEF, CHR 0xBB, CHR 0xBF, CHR 0xE3, CHR 0x80, CHR 0x80, CHR 0x0A])
       = idle [CHR 0x20, CHR 0x09, CHR 0xC2, CHR 0xA0, CHR 0xE2, CHR 0x80, CHR 0xA8,
               CHR 0xEF, CHR 0xBB, CHR 0xBF, CHR 0xE3, CHR 0x80, CHR 0x80, CHR 0x0A]"
  using blank_input_is_noop
          [of "idle [CHR 0x20, CHR 0x09, CHR 0xC2, CHR 0xA0, CHR 0xE2, CHR 0x80, CHR 0xA8,
                     CHR 0xEF, CHR 0xBB, CHR 0xBF, CHR 0xE3, CHR 0x80, CHR 0x80, CHR 0x0A]"
              "answering Rejected []"]
  by (simp add: idle_def trim_defs)

text \<open>
  C2, as stated, fails: with an empty array at \<^verbatim>\<open>output.dags\<close> and a non-empty one at
  \<^verbatim>\<open>dags\<close>, extractDags of Chatbot2.jsx returns the empty array, not the first
  non-empty match.
\<close>

theorem extractDags_first_nonempty_counterexample:
  "extractDags (Obj [(''output'', Obj [(''dags'', Arr [])]), (''dags'', Arr [Str ''a''])]) = []
   \<and> first_nonempty_array
        (candidates (Obj [(''output'', Obj [(''dags'', Arr [])]), (''dags'', Arr [Str ''a''])]))
       = [Str ''a'']"
  by (simp add: extractDags_def candidates_def)

text \<open>
  C2, amended.  extractDags of Chatbot2.jsx looks at the six places in the stated
  order and returns the first that is an array, empty or not; when none is an array it
  returns the empty array.
\<close>

theorem extractDags_first_array: "extractDags p = first_array (candidates p)"
  by (auto simp: extractDags_def candidates_def falsy_field_not_array falsy_field_falsy
        dest: isArray_truthy)


text \<open>
  C9, at a payload whose \<^verbatim>\<open>output.dags\<close> is an object keyed by DAG id.  extractDags of
  Analytics.jsx returns that object, which is not a sequence, and applied to its own
  result it returns the empty array, which is not that result.
\<close>

theorem extractDags_analytics_not_idempotent:
  "extractDags_analytics
     (Obj [(''output'', Obj [(''dags'', Obj [(''etl'', Obj [(''is_paused'', Bool False)])])])])
     = Obj [(''etl'', Obj [(''is_paused'', Bool False)])]
   \<and> \<not> isArray (Obj [(''etl'', Obj [(''is_paused'', Bool False)])])
   \<and> extractDags_analytics (Obj [(''etl'', Obj [(''is_paused'', Bool False)])]) = Arr []"
  by (simp add: extractDags_analytics_def)

text \<open>
  C8, at a response with status 200 whose body is not JSON.  callMCPServer of
  Analytics.jsx returns the result of an unreachable server: not ok, status 0, body null.
\<close>

theorem callMCPServer_analytics_parse_failure:
  "callMCPServer_analytics (answering (Responded 200 None) k) q
     = \<lparr>ok = False, status = 0, body = Null, err = Some SyntaxError\<rparr>"
  by (simp add: callMCPServer_analytics_def answering_def)

text \<open>
  C7, as stated, fails: a null entry and an empty string are dropped, so the result has
  fewer entries than the raw list.
\<close>

theorem normalizeDagList_drops_falsy_counterexample:
  "normalizeDagList [Str ''a'', Null, Str []] = [Str ''a'']
   \<and> length (normalizeDagList [Str ''a'', Null, Str []]) \<noteq> length [Str ''a'', Null, Str []]"
  by (simp add: normalizeDagList_def normalize_entry_def)

text \<open>
  C7, amended.  normalizeDagList keeps, in order, one result for every truthy raw entry
  and drops the falsy ones (null, false, 0, the empty string).  A kept entry never
  yields a falsy result: a string is its own identifier, and any other entry takes the
  first truthy of \<^verbatim>\<open>dag_id\<close>, \<^verbatim>\<open>dagId\<close>, \<^verbatim>\<open>id\<close>, and otherwise its JSON string form,
  which is a non-empty string.
\<close>

theorem normalizeDagList_keeps_truthy:
  "normalizeDagList raw = map normalize_entry (filter truthy raw)
   \<and> (\<forall>d \<in> set raw. truthy d \<longrightarrow>
         truthy (normalize_entry d)
         \<and> (\<exists>s. s \<noteq> [] \<and> stringified d = Str s)
         \<and> normalize_entry d =
             (if isString d then d
              else if truthy (field d ''dag_id'') then field d ''dag_id''
              else if truthy (field d ''dagId'') then field d ''dagId''
              else if truthy (field d ''id'') then field d ''id''
              else stringified d))"
proof (intro conjI ballI impI)
  show "normalizeDagList raw = map normalize_entry (filter truthy raw)"
    by (rule normalizeDagList_filter_map)
next
  fix d assume "truthy d"
  then show "truthy (normalize_entry d)"
    by (simp add: truthy_normalize_entry)
next
  fix d assume "truthy d"
  then obtain s where "JSON_stringify d = Some s" "s \<noteq> []"
    using stringify_truthy by blast
  then show "\<exists>s. s \<noteq> [] \<and> stringified d = Str s"
    by (simp add: stringified_def)
next
  fix d assume "truthy d"
  then show "normalize_entry d =
             (if isString d then d
              else if truthy (field d ''dag_id'') then field d ''dag_id''
              else if truthy (field d ''dagId'') then field d ''dagId''
              else if truthy (field d ''id'') then field d ''id''
              else stringified d)"
    by (simp add: normalize_entry_def js_or_def)
qed

text \<open>
  C7, amended, at a list of a string, a null, an object with an \<^verbatim>\<open>id\<close> and an object
  with none of the three properties.
\<close>

theorem normalizeDagList_keeps_truthy_witness:
  "Obj [(''x'', Num 1)] \<in> set [Str ''a'', Null, Obj [(''id'', Str ''b'')], Obj [(''x'', Num 1)]]
   \<and> truthy (Obj [(''x'', Num 1)])
   \<and> normalize_entry (Obj [(''x'', Num 1)]) = Str ''{\"x\":1}''
   \<and> normalizeDagList [Str ''a'', Null, Obj [(''id'', Str ''b'')], Obj [(''x'', Num 1)]]
       = [Str ''a'', Str ''b'', Str ''{\"x\":1}'']"
  using normalizeDagList_keeps_truthy [of "[Str ''a'', Null, Obj [(''id'', Str ''b'')], Obj [(''x'', Num 1)]]"]
  by (simp add: normalize_entry_def js_or_def stringified_def quote_def escape_char_def
        show_int_def digit_def)

text \<open>
  C6, at the utterance \<^verbatim>\<open>search\<close>.  The handler of Analytics.jsx enters its search branch
  with an empty term and returns: the user's message is the only change, no request is
  issued, no reply is appended and the default branch is not reached.
\<close>

theorem search_without_term_ends_turn:
  "match_analytics ''search'' = Search []
   \<and> sendMessage_analytics e (idle ''search'') = (idle [])\<lparr>messages := [User ''search'']\<rparr>"
proof -
  have m: "match_analytics ''search'' = Search []"
    by (simp add: match_analytics_def search_term_def rx_defs list_rx_def search_rx_def
          search_word_rx_def)
  show ?thesis
    by (simp add: m sendMessage_analytics_def search_analytics_def idle_def trim_defs)
qed


text \<open>
  C1, as stated, fails: the reply \<^verbatim>\<open>drop all dags\<close> is none of the seven forms, and the
  handler forwards it to the backend.
\<close>

theorem unrecognized_reply_forwarded_counterexample:
  "\<not> recognized_form ''drop all dags''
   \<and> fst (sendToAI (model_says ''drop all dags'' (Responded 200 (Some (Obj [])))) ''clean up'')
       = Some ''drop all dags''
   \<and> calls (sendMessage_ai (model_says ''drop all dags'' (Responded 200 (Some (Obj [])))) (idle ''clean up''))
       = [Groq_command ''clean up'', Run ''drop all dags'']"
proof -
  have "\<not> recognized_form ''drop all dags''"
    by (simp add: recognized_form_def startsWith_def)
  moreover have "fst (sendToAI (model_says ''drop all dags'' (Responded 200 (Some (Obj [])))) ''clean up'')
       = Some ''drop all dags''"
    by (simp add: sendToAI_def model_says_def answering_def js_or_def first_line_def trim_defs)
  moreover have "calls (sendMessage_ai (model_says ''drop all dags'' (Responded 200 (Some (Obj []))))
        (idle ''clean up'')) = [Groq_command ''clean up'', Run ''drop all dags'']"
    by (simp add: sendMessage_ai_def interpret_ai_def sendToAI_def calls_execute_ai send_defs
          js_or_def first_line_def trim_defs)
  ultimately show ?thesis by blast
qed

text \<open>
  C1, amended.  With a key configured, the handler reports an interpretation failure and
  issues no backend request exactly when sendToAI yields null or a first line that is
  empty once trimmed; every other first line, recognized or not, is forwarded as it is
  to the backend, in one request.
\<close>

theorem reply_forwarded_unless_blank:
  assumes "trim (input st) \<noteq> []" and "groq_key e \<noteq> []"
  shows "case fst (sendToAI e (trim (input st))) of
           Some (c # cs) \<Rightarrow>
             calls (sendMessage_ai e st)
               = calls st @ [Groq_command (trim (input st)), Run (c # cs)]
         | _ \<Rightarrow>
             calls (sendMessage_ai e st) = calls st @ [Groq_command (trim (input st))]
             \<and> messages (sendMessage_ai e st)
                 = messages st @ [User (input st), Bot [U 0x1F916, T '' Interpreting your request...''],
                     Bot [U 0x274C, T '' AI could not interpret the request. Try rephrasing.'']]"
proof -
  obtain r cs where r: "sendToAI e (trim (input st)) = (r, cs)"
    by (cases "sendToAI e (trim (input st))") blast
  with assms(2) have cs: "cs = [Groq_command (trim (input st))]"
    using sendToAI_calls [of e "trim (input st)"] by simp
  show ?thesis
    using assms
    by (simp add: sendMessage_ai_def interpret_ai_def r cs calls_execute_ai bot_def Let_def
          split: option.splits list.splits)
qed

text \<open>
  C1, amended, at a reply that is a blank line followed by prose and at the reply
  \<^verbatim>\<open>drop all dags\<close>.
\<close>

theorem reply_forwarded_unless_blank_witness:
  "trim (input (idle ''clean up'')) \<noteq> []
   \<and> groq_key (model_says ''  \<newline>no idea'' Rejected) \<noteq> []
   \<and> fst (sendToAI (model_says ''  \<newline>no idea'' Rejected) ''clean up'') = Some []
   \<and> calls (sendMessage_ai (model_says ''  \<newline>no idea'' Rejected) (idle ''clean up''))
       = [Groq_command ''clean up'']
   \<and> fst (sendToAI (model_says ''drop all dags'' Rejected) ''clean up'') = Some ''drop all dags''
   \<and> calls (sendMessage_ai (model_says ''drop all dags'' Rejected) (idle ''clean up''))
       = [Groq_command ''clean up'', Run ''drop all dags'']"
  using reply_forwarded_unless_blank [of "idle ''clean up''" "model_says ''  \<newline>no idea'' Rejected"]
        reply_forwarded_unless_blank [of "idle ''clean up''" "model_says ''drop all dags'' Rejected"]
  by (simp add: sendToAI_def model_says_def answering_def idle_def js_or_def first_line_def
        trim_defs)




text \<open>
  C4, as stated, fails: the detail record is the body of the details response under
  \<^verbatim>\<open>dag_id\<close>, so when that body has a \<^verbatim>\<open>latest_run\<close> of its own the record has one
  although the latest-run request failed.
\<close>

theorem details_latest_run_present_counterexample:
  "match_analytics ''get details for nightly_etl'' = Details ''nightly_etl''
   \<and> \<not> ok (callMCPServer_analytics stale_details ''get latest run nightly_etl'')
   \<and> field (dagDetails (sendMessage_analytics stale_details (idle ''get details for nightly_etl'')))
        ''latest_run'' = Str ''stale''"
  by (simp add: match_details_example sendMessage_analytics_def details_analytics_def
        callMCPServer_analytics_def stale_details_def send_defs trim_defs)

text \<open>
  C4, amended.  For a query that the cascade reads as Details of \<open>d\<close>, the turn issues the
  details request and the latest-run request, whatever either answers.  If the details
  request succeeds the turn reports success and stores the record made of \<^verbatim>\<open>dag_id\<close>
  overlaid with the properties of the details body, to which \<^verbatim>\<open>latest_run\<close> is added
  exactly when the latest-run request succeeds; when it fails nothing is added, so the
  record's \<^verbatim>\<open>latest_run\<close> is that of the details body, absent if the body has none.  If
  the details request fails the turn reports that the DAG was not found and the detail
  record stays null.
\<close>

theorem details_asymmetric_join:
  assumes "trim (input st) \<noteq> []"
      and "match_analytics (trim (input st)) = Details d"
  shows "calls (sendMessage_analytics e st)
           = calls st @ [Run (''get dag details '' @ d), Run (''get latest run '' @ d)]
         \<and> (if ok (callMCPServer_analytics e (''get dag details '' @ d)) then
              messages (sendMessage_analytics e st)
                = messages st @ [User (input st),
                    Bot [U 0x1F4CB, T '' Details for `'', T d, T ''` shown below.'']]
              \<and> dagDetails (sendMessage_analytics e st)
                  = Obj ((if ok (callMCPServer_analytics e (''get latest run '' @ d))
                          then [(''latest_run'', body (callMCPServer_analytics e (''get latest run '' @ d)))]
                          else [])
                         @ spread (body (callMCPServer_analytics e (''get dag details '' @ d)))
                         @ [(''dag_id'', Str d)])
              \<and> (if ok (callMCPServer_analytics e (''get latest run '' @ d)) then
                    field (dagDetails (sendMessage_analytics e st)) ''latest_run''
                      = body (callMCPServer_analytics e (''get latest run '' @ d))
                  else
                    field (dagDetails (sendMessage_analytics e st)) ''latest_run''
                      = field (Obj (spread (body (callMCPServer_analytics e (''get dag details '' @ d)))))
                          ''latest_run'')
            else
              messages (sendMessage_analytics e st)
                = messages st @ [User (input st), Bot [U 0x274C, T '' DAG `'', T d, T ''` not found.'']]
              \<and> dagDetails (sendMessage_analytics e st) = Null)"
  using assms
  by (simp add: sendMessage_analytics_def details_analytics_def bot_def called_def Let_def
        map_add_def split: option.splits)

text \<open>
  C4, amended, at the query of the specification's example, with a details body that has
  no \<^verbatim>\<open>latest_run\<close> and a latest-run request that cannot be reached.
\<close>

theorem details_asymmetric_join_witness:
  "trim (input (idle ''get details for nightly_etl'')) \<noteq> []
   \<and> match_analytics (trim (input (idle ''get details for nightly_etl''))) = Details ''nightly_etl''
   \<and> ok (callMCPServer_analytics run_unreachable ''get dag details nightly_etl'')
   \<and> \<not> ok (callMCPServer_analytics run_unreachable ''get latest run nightly_etl'')
   \<and> calls (sendMessage_analytics run_unreachable (idle ''get details for nightly_etl''))
       = [Run ''get dag details nightly_etl'', Run ''get latest run nightly_etl'']
   \<and> dagDetails (sendMessage_analytics run_unreachable (idle ''get details for nightly_etl''))
       = Obj [(''is_paused'', Bool False), (''dag_id'', Str ''nightly_etl'')]
   \<and> field (dagDetails (sendMessage_analytics run_unreachable (idle ''get details for nightly_etl'')))
        ''latest_run'' = Undefined"
proof -
  have t: "trim (input (idle ''get details for nightly_etl'')) = ''get details for nightly_etl''"
    by (simp add: idle_def trim_defs)
  note m = match_details_example
  have d: "callMCPServer_analytics run_unreachable ''get dag details nightly_etl''
             = \<lparr>ok = True, status = 200, body = Obj [(''is_paused'', Bool False)], err = None\<rparr>"
    by (simp add: callMCPServer_analytics_def run_unreachable_def answering_def res_ok_def)
  have r: "callMCPServer_analytics run_unreachable ''get latest run nightly_etl''
             = \<lparr>ok = False, status = 0, body = Null, err = Some NetworkError\<rparr>"
    by (simp add: callMCPServer_analytics_def run_unreachable_def answering_def)
  show ?thesis
    using details_asymmetric_join [of "idle ''get details for nightly_etl''" "''nightly_etl''" run_unreachable]
    by (simp add: t m d r) (simp add: idle_def)
qed


text \<open>
  C5, as stated, fails in both files.  In Chatbot2.jsx a list request that cannot reach
  the server and one that succeeds with an empty list of DAGs end with the same
  messages.  In Analytics.jsx a list request that succeeds with the body \<^verbatim>\<open>null\<close>,
  from which no DAG is extracted, ends with the messages of the request that cannot
  reach the server.
\<close>

theorem list_messages_same_counterexample:
  "messages (sendMessage_chatbot2 (answering Rejected []) (idle ''list all dags''))
     = [User ''list all dags'', Bot [T ''No DAGs found or server not responding.'']]
   \<and> messages (sendMessage_chatbot2 (answering (Responded 200 (Some (Obj [(''dags'', Arr [])]))) [])
        (idle ''list all dags''))
     = [User ''list all dags'', Bot [T ''No DAGs found or server not responding.'']]
   \<and> messages (sendMessage_analytics (answering Rejected []) (idle ''list all dags''))
     = [User ''list all dags'', Bot [U 0x274C, T '' Could not connect to Airflow server.'']]
   \<and> extractDags_analytics Null = Arr []
   \<and> messages (sendMessage_analytics (answering (Responded 200 (Some Null)) []) (idle ''list all dags''))
     = [User ''list all dags'', Bot [U 0x274C, T '' Could not connect to Airflow server.'']]"
  by (simp add: sendMessage_chatbot2_def match_list_example list_chatbot2_def callMCPServer_def
        extractDags_def sendMessage_analytics_def match_list_analytics_example list_analytics_def
        callMCPServer_analytics_def extractDags_analytics_def send_defs trim_defs)

text \<open>
  C5, amended.  In the list branch of Analytics.jsx (lines 493-519) the request is
  answered with \<^verbatim>\<open>No DAGs found.\<close> when it succeeds with a truthy body from which nothing
  of a length above 0 is extracted.  It is answered with the text that the server could
  not be reached when it fails, and also when it succeeds with a falsy body (\<^verbatim>\<open>null\<close>,
  \<^verbatim>\<open>false\<close>, \<^verbatim>\<open>0\<close>, \<^verbatim>\<open>""\<close>); the two texts differ.  In the list branch of
  Chatbot2.jsx (lines 189-211) the request is answered with the one text
  \<^verbatim>\<open>No DAGs found or server not responding.\<close> when it fails and when the extracted
  array is empty.  When the extracted array is not empty the answer is
  \<^verbatim>\<open>Found n DAGs. Showing in table below.\<close> and the normalized list is stored; \<open>n\<close> is
  the length of the normalized list, which is the number of the extracted entries that
  are truthy, so it is 0 when every entry is falsy.
\<close>

theorem list_empty_vs_failure:
  "(ok (callMCPServer_analytics e ''list all dags'')
      \<and> truthy (body (callMCPServer_analytics e ''list all dags''))
      \<and> \<not> gt0 e (field (extractDags_analytics (body (callMCPServer_analytics e ''list all dags''))) ''length'')
     \<longrightarrow> list_analytics e st = Done (bot [T ''No DAGs found.''] (called (Run ''list all dags'') st)))
   \<and> (\<not> (ok (callMCPServer_analytics e ''list all dags'')
           \<and> truthy (body (callMCPServer_analytics e ''list all dags'')))
     \<longrightarrow> list_analytics e st
           = Done (bot [U 0x274C, T '' Could not connect to Airflow server.'']
                     (called (Run ''list all dags'') st)))
   \<and> [T ''No DAGs found.''] \<noteq> [U 0x274C, T '' Could not connect to Airflow server.'']
   \<and> (\<not> ok (callMCPServer e ''list all dags'') \<or> extractDags (body (callMCPServer e ''list all dags'')) = []
     \<longrightarrow> list_chatbot2 e st
           = bot [T ''No DAGs found or server not responding.''] (called (Run ''list all dags'') st))
   \<and> (ok (callMCPServer e ''list all dags'') \<and> extractDags (body (callMCPServer e ''list all dags'')) \<noteq> []
     \<longrightarrow> list_chatbot2 e st
           = bot [T ''Found '',
                  N (length (normalizeDagList (extractDags (body (callMCPServer e ''list all dags''))))),
                  T '' DAGs. Showing in table below.'']
               ((called (Run ''list all dags'') st)
                  \<lparr>dagList := Arr (normalizeDagList (extractDags (body (callMCPServer e ''list all dags'')))),
                   currentPage := 1\<rparr>))
   \<and> length (normalizeDagList (extractDags (body (callMCPServer e ''list all dags''))))
       = length (filter truthy (extractDags (body (callMCPServer e ''list all dags''))))"
  by (auto simp: list_analytics_def list_chatbot2_def Let_def normalizeDagList_filter_map)

text \<open>
  C5, amended, at four backends: one that answers with an empty list of DAGs, one that
  cannot be reached, one that answers with the body \<^verbatim>\<open>null\<close>, and one that answers with
  the list \<^verbatim>\<open>[null, ""]\<close>, which is not empty and of which no entry is truthy.
\<close>

theorem list_empty_vs_failure_witness:
  "ok (callMCPServer_analytics (answering (Responded 200 (Some (Obj [(''dags'', Arr [])]))) []) ''list all dags'')
   \<and> truthy (body (callMCPServer_analytics (answering (Responded 200 (Some (Obj [(''dags'', Arr [])]))) [])
                    ''list all dags''))
   \<and> list_analytics (answering (Responded 200 (Some (Obj [(''dags'', Arr [])]))) []) (idle [])
       = Done ((idle [])\<lparr>messages := [Bot [T ''No DAGs found.'']], calls := [Run ''list all dags'']\<rparr>)
   \<and> extractDags (Obj [(''dags'', Arr [])]) = []
   \<and> list_chatbot2 (answering (Responded 200 (Some (Obj [(''dags'', Arr [])]))) []) (idle [])
       = (idle [])\<lparr>messages := [Bot [T ''No DAGs found or server not responding.'']],
                   calls := [Run ''list all dags'']\<rparr>
   \<and> \<not> ok (callMCPServer_analytics (answering Rejected []) ''list all dags'')
   \<and> list_analytics (answering Rejected []) (idle [])
       = Done ((idle [])\<lparr>messages := [Bot [U 0x274C, T '' Could not connect to Airflow server.'']],
                         calls := [Run ''list all dags'']\<rparr>)
   \<and> \<not> ok (callMCPServer (answering Rejected []) ''list all dags'')
   \<and> list_chatbot2 (answering Rejected []) (idle [])
       = (idle [])\<lparr>messages := [Bot [T ''No DAGs found or server not responding.'']],
                   calls := [Run ''list all dags'']\<rparr>
   \<and> ok (callMCPServer_analytics (answering (Responded 200 (Some Null)) []) ''list all dags'')
   \<and> \<not> truthy (body (callMCPServer_analytics (answering (Responded 200 (Some Null)) []) ''list all dags''))
   \<and> list_analytics (answering (Responded 200 (Some Null)) []) (idle [])
       = Done ((idle [])\<lparr>messages := [Bot [U 0x274C, T '' Could not connect to Airflow server.'']],
                         calls := [Run ''list all dags'']\<rparr>)
   \<and> ok (callMCPServer (answering (Responded 200 (Some (Obj [(''dags'', Arr [Null, Str []])]))) [])
         ''list all dags'')
   \<and> extractDags (Obj [(''dags'', Arr [Null, Str []])]) = [Null, Str []]
   \<and> list_chatbot2 (answering (Responded 200 (Some (Obj [(''dags'', Arr [Null, Str []])]))) []) (idle [])
       = (idle [])\<lparr>messages := [Bot [T ''Found '', N 0, T '' DAGs. Showing in table below.'']],
                   dagList := Arr [], currentPage := 1, calls := [Run ''list all dags'']\<rparr>"
  using list_empty_vs_failure [of "answering (Responded 200 (Some (Obj [(''dags'', Arr [])]))) []" "idle []"]
        list_empty_vs_failure [of "answering Rejected []" "idle []"]
        list_empty_vs_failure [of "answering (Responded 200 (Some Null)) []" "idle []"]
        list_empty_vs_failure [of "answering (Responded 200 (Some (Obj [(''dags'', Arr [Null, Str []])]))) []"
                                  "idle []"]
  by (simp add: callMCPServer_analytics_def callMCPServer_def extractDags_analytics_def extractDags_def
        send_defs)

end
